theory Spec2Isabelle
  imports Complex_Main "HOL-Library.Word" "HOL-Library.Sublist" "HOL-Library.Code_Target_Nat"
begin

unbundle bit_operations_syntax

section \<open>Python values of the carbon footprint form\<close>

text \<open>
  \<^verbatim>\<open>src/app.py\<close> declares the seven numeric parameters of \<^verbatim>\<open>validate_input\<close> and
  \<^verbatim>\<open>compute\<close> as \<^verbatim>\<open>float\<close>, and converts each of them with \<^verbatim>\<open>float(value)\<close> under
  \<^verbatim>\<open>except (TypeError, ValueError)\<close>. A numeric field is modelled as a Python float or as
  \<^verbatim>\<open>None\<close> (the value an empty number widget delivers, on which \<^verbatim>\<open>float\<close> raises
  \<^verbatim>\<open>TypeError\<close>).

  An \<^verbatim>\<open>int\<close> argument is outside the declared type and is not modelled
  separately: \<^verbatim>\<open>float\<close> turns it into a float, except beyond the range of the floats,
  where it raises \<^verbatim>\<open>OverflowError\<close>.

  A Python float is a finite number, an infinity or a NaN. The finite ones are modelled by
  the reals, which contain every finite double; the validator only compares a float with
  the integer constants 0, 100, 1000 and 10000, and such a comparison is exact. The two
  zeros of the doubles compare equal and are both \<open>Finite 0\<close>.
\<close>

datatype pyfloat = Finite real | PosInf | NegInf | NaN

datatype pyval = PyFloat pyfloat | PyNone

text \<open>The exceptions of the model: \<^verbatim>\<open>gr.Error(message)\<close> and the two that the handlers catch.\<close>

datatype pyexc = GrError string | TypeError | ValueError

text \<open>\<^verbatim>\<open>x <= k\<close>, \<^verbatim>\<open>x < k\<close> and \<^verbatim>\<open>x > k\<close> of a float and an integer constant: every comparison
  with a NaN is false.\<close>

fun float_le :: "pyfloat \<Rightarrow> int \<Rightarrow> bool" where
  "float_le (Finite r) k = (r \<le> of_int k)"
| "float_le PosInf k = False"
| "float_le NegInf k = True"
| "float_le NaN k = False"

fun float_lt :: "pyfloat \<Rightarrow> int \<Rightarrow> bool" where
  "float_lt (Finite r) k = (r < of_int k)"
| "float_lt PosInf k = False"
| "float_lt NegInf k = True"
| "float_lt NaN k = False"

fun float_gt :: "pyfloat \<Rightarrow> int \<Rightarrow> bool" where
  "float_gt (Finite r) k = (of_int k < r)"
| "float_gt PosInf k = True"
| "float_gt NegInf k = False"
| "float_gt NaN k = False"

text \<open>The builtin \<^verbatim>\<open>float(value)\<close>.\<close>

fun py_float :: "pyval \<Rightarrow> pyexc + pyfloat" where
  "py_float (PyFloat x) = Inr x"
| "py_float PyNone = Inl TypeError"

section \<open>Company names\<close>

text \<open>
  A company name is a Python \<^verbatim>\<open>str\<close>, a sequence of code points. It is modelled as a
  \<open>string\<close> whose characters are the code points 0 to 255, one character each, so that
  \<open>length\<close> is Python's \<^verbatim>\<open>len\<close>. On these code points \<^verbatim>\<open>str.isspace\<close> holds of the
  twelve characters below, and \<^verbatim>\<open>str.lower\<close> adds 32 to the upper-case letters A to Z and
  to the upper-case letters of the Latin-1 block.
\<close>

definition is_whitespace :: "char \<Rightarrow> bool" where
  "is_whitespace c = ((of_char c :: nat) \<in> {9, 10, 11, 12, 13, 28, 29, 30, 31, 32, 133, 160})"

definition isspace :: "string \<Rightarrow> bool" where
  "isspace s = (s \<noteq> [] \<and> list_all is_whitespace s)"

definition lower_char :: "char \<Rightarrow> char" where
  "lower_char c =
     (let n = (of_char c :: nat)
      in if (65 \<le> n \<and> n \<le> 90) \<or> (192 \<le> n \<and> n \<le> 214) \<or> (216 \<le> n \<and> n \<le> 222)
         then char_of (n + 32) else c)"

definition str_lower :: "string \<Rightarrow> string" where
  "str_lower s = map lower_char s"

definition str_replace :: "char \<Rightarrow> char \<Rightarrow> string \<Rightarrow> string" where
  "str_replace old new s = map (\<lambda>c. if c = old then new else c) s"

section \<open>validate\_input\<close>

text \<open>The list \<^verbatim>\<open>non_zero_fields\<close>, in the order the source builds it.\<close>

definition non_zero_fields ::
  "pyval \<Rightarrow> pyval \<Rightarrow> pyval \<Rightarrow> pyval \<Rightarrow> pyval \<Rightarrow> pyval \<Rightarrow> (string \<times> pyval) list" where
  "non_zero_fields avg_electric_bill avg_gas_bill avg_transport_cost monthly_waste_generated
       annual_travel_kms fuel_efficiency =
     [(''Electricity Bill'', avg_electric_bill),
      (''Gas Bill'', avg_gas_bill),
      (''Transport Cost'', avg_transport_cost),
      (''Monthly Waste'', monthly_waste_generated),
      (''Annual Travel Distance'', annual_travel_kms),
      (''Fuel Efficiency'', fuel_efficiency)]"

text \<open>The \<^verbatim>\<open>for name, value in non_zero_fields\<close> loop: the first \<^verbatim>\<open>raise\<close> ends it. An
  exception of \<^verbatim>\<open>float\<close> other than the two caught ones would propagate.\<close>

fun check_non_zero :: "(string \<times> pyval) list \<Rightarrow> pyexc + unit" where
  "check_non_zero [] = Inr ()"
| "check_non_zero ((name, v) # rest) =
     (case py_float v of
        Inl exc \<Rightarrow>
          (if exc = TypeError \<or> exc = ValueError
           then Inl (GrError (name @ '' must be a valid number!''))
           else Inl exc)
      | Inr float_val \<Rightarrow>
          if float_le float_val 0
          then Inl (GrError (name @ '' must be a positive number greater than zero!''))
          else if name = ''Electricity Bill'' \<and> float_gt float_val 10000
          then Inl (GrError
            ''Electricity bill seems unrealistically high. Please check the amount!'')
          else if name = ''Monthly Waste'' \<and> float_gt float_val 1000
          then Inl (GrError ''Monthly waste generation seems extremely high. Please verify!'')
          else check_non_zero rest)"

definition validate_input ::
  "string \<Rightarrow> pyval \<Rightarrow> pyval \<Rightarrow> pyval \<Rightarrow> pyval \<Rightarrow> pyval \<Rightarrow> pyval \<Rightarrow> pyval \<Rightarrow> pyexc + unit" where
  "validate_input company_name avg_electric_bill avg_gas_bill avg_transport_cost
       monthly_waste_generated recycled_waste_percent annual_travel_kms fuel_efficiency =
     (if company_name = [] \<or> isspace company_name
      then Inl (GrError ''Company name cannot be empty or just whitespace!'')
      else if length company_name > 100
      then Inl (GrError ''Company name is too long (maximum 100 characters)!'')
      else
        (case check_non_zero
                (non_zero_fields avg_electric_bill avg_gas_bill avg_transport_cost
                   monthly_waste_generated annual_travel_kms fuel_efficiency) of
           Inl exc \<Rightarrow> Inl exc
         | Inr u \<Rightarrow>
             (case py_float recycled_waste_percent of
                Inl exc \<Rightarrow>
                  (if exc = TypeError \<or> exc = ValueError
                   then Inl (GrError ''Recycled waste percentage must be a valid number!'')
                   else Inl exc)
              | Inr recycled_percent \<Rightarrow>
                  if float_lt recycled_percent 0 \<or> float_gt recycled_percent 100
                  then Inl (GrError ''Recycled waste percentage must be between 0 and 100!'')
                  else Inr ())))"

section \<open>The libraries compute calls\<close>

type_synonym byte = "8 word"

text \<open>\<^verbatim>\<open>base64.b64encode(data).decode("utf-8")\<close>: three bytes become four characters of the
  standard alphabet, and a last group of one or two bytes is padded with \<^verbatim>\<open>=\<close>.\<close>

definition b64_alphabet :: string where
  "b64_alphabet = ''ABCDEFGHIJKLMNOPQRSTUVWXYZabcdefghijklmnopqrstuvwxyz0123456789+/''"

definition b64_char :: "byte \<Rightarrow> char" where
  "b64_char x = b64_alphabet ! unat (x AND 63)"

fun b64encode :: "byte list \<Rightarrow> string" where
  "b64encode [] = []"
| "b64encode [a] =
     [b64_char (drop_bit 2 a), b64_char (push_bit 4 (a AND 3)), CHR ''='', CHR ''='']"
| "b64encode [a, b] =
     [b64_char (drop_bit 2 a), b64_char (push_bit 4 (a AND 3) OR drop_bit 4 b),
      b64_char (push_bit 2 (b AND 15)), CHR ''='']"
| "b64encode (a # b # c # rest) =
     [b64_char (drop_bit 2 a), b64_char (push_bit 4 (a AND 3) OR drop_bit 4 b),
      b64_char (push_bit 2 (b AND 15) OR drop_bit 6 c), b64_char (c AND 63)]
     @ b64encode rest"

text \<open>
  Modelled from the spec: the module \<^verbatim>\<open>emission_calculator.calculator\<close> (imported as
  \<^verbatim>\<open>ec\<close>) is not part of the sources at hand, and neither are the figure methods
  \<^verbatim>\<open>to_image\<close> and \<^verbatim>\<open>write_image\<close> of the plotting library nor Python's float
  arithmetic and formatting. The spec says of the computation that it is deterministic
  ordinary arithmetic with no failure modes beyond the validator's, so each of them is a
  total function of its arguments (rendering the image and writing the report file
  always succeed), collected in a record that \<open>compute\<close> takes as a parameter:
  \<^item> \<open>make_dataframe\<close> and \<open>draw_report_figure\<close> are the two functions of \<^verbatim>\<open>ec\<close>;
  \<^item> \<open>to_image fig width height format\<close> is the bytes of the rendered image;
  \<^item> \<open>write_image fig path width height\<close> is the bytes the figure writes to the file;
  \<^item> \<open>float_add\<close> is \<^verbatim>\<open>+\<close> on floats, \<open>format_2f\<close> the format \<^verbatim>\<open>.2f\<close> and \<open>float_str\<close> the
    \<^verbatim>\<open>str\<close> of a float.
\<close>

record ('df, 'fig) environment =
  make_dataframe ::
    "string \<Rightarrow> pyval \<Rightarrow> pyval \<Rightarrow> pyval \<Rightarrow> pyval \<Rightarrow> pyval \<Rightarrow> pyval \<Rightarrow> pyval \<Rightarrow> 'df"
  draw_report_figure :: "'df \<Rightarrow> 'fig"
  to_image :: "'fig \<Rightarrow> nat \<Rightarrow> nat \<Rightarrow> string \<Rightarrow> byte list"
  write_image :: "'fig \<Rightarrow> string \<Rightarrow> nat \<Rightarrow> nat \<Rightarrow> byte list"
  float_add :: "pyfloat \<Rightarrow> pyfloat \<Rightarrow> pyfloat"
  format_2f :: "pyfloat \<Rightarrow> string"
  float_str :: "pyfloat \<Rightarrow> string"

text \<open>\<^verbatim>\<open>a + b\<close>, \<^verbatim>\<open>f"{v:.2f}"\<close> and \<^verbatim>\<open>f"{v}"\<close> on the values of the model: \<^verbatim>\<open>None\<close> has no
  \<^verbatim>\<open>+\<close> and no format \<^verbatim>\<open>.2f\<close>, and prints as \<^verbatim>\<open>None\<close>.\<close>

fun py_add :: "('df, 'fig) environment \<Rightarrow> pyval \<Rightarrow> pyval \<Rightarrow> pyexc + pyval" where
  "py_add E (PyFloat x) (PyFloat y) = Inr (PyFloat (float_add E x y))"
| "py_add E (PyFloat x) PyNone = Inl TypeError"
| "py_add E PyNone v = Inl TypeError"

fun py_format_2f :: "('df, 'fig) environment \<Rightarrow> pyval \<Rightarrow> pyexc + string" where
  "py_format_2f E (PyFloat x) = Inr (format_2f E x)"
| "py_format_2f E PyNone = Inl TypeError"

fun py_str :: "('df, 'fig) environment \<Rightarrow> pyval \<Rightarrow> string" where
  "py_str E (PyFloat x) = float_str E x"
| "py_str E PyNone = ''None''"

section \<open>compute\<close>

text \<open>
  What \<open>compute\<close> does to the world outside: the files it writes, as a map from paths to
  contents, and the calls it makes to the libraries, in order.
\<close>

datatype call = MakeDataframe | DrawReportFigure | ToImage | WriteImage string

record world =
  files :: "string \<rightharpoonup> byte list"
  calls :: "call list"

text \<open>\<^verbatim>\<open>gr.DownloadButton("Download Report", variant="secondary", visible=True, value=file_path)\<close>.\<close>

record download_button =
  btn_label :: string
  btn_variant :: string
  btn_visible :: bool
  btn_value :: string

text \<open>The summary is a Python \<^verbatim>\<open>str\<close> with characters beyond code point 255 (the four
  pictographs and the euro sign), so it is a list of code points.\<close>

type_synonym pystr = "nat list"

definition cps :: "string \<Rightarrow> pystr" where
  "cps s = map of_char s"

text \<open>The local variable \<^verbatim>\<open>file_path\<close>:
  \<^verbatim>\<open>f'./reports/{company_name.lower().replace(' ', '_')[:10]}_report.pdf'\<close>.\<close>

definition file_path :: "string \<Rightarrow> string" where
  "file_path company_name =
     ''./reports/''
     @ take 10 (str_replace CHR '' '' CHR ''_'' (str_lower company_name))
     @ ''_report.pdf''"

text \<open>The f-string \<^verbatim>\<open>summary\<close>. Its replacement fields are evaluated from left to right; the
  only ones that can raise are the sum and its format.\<close>

definition render_summary ::
  "('df, 'fig) environment \<Rightarrow> string \<Rightarrow> pyval \<Rightarrow> pyval \<Rightarrow> pyval \<Rightarrow> pyval \<Rightarrow> pyval \<Rightarrow> string
     \<Rightarrow> pyexc + pystr" where
  \<open>render_summary E company_name avg_electric_bill avg_gas_bill annual_travel_kms
       monthly_waste_generated recycled_waste_percent img_data =
     (case py_add E avg_electric_bill avg_gas_bill of
        Inl exc \<Rightarrow> Inl exc
      | Inr bill_sum \<Rightarrow>
          (case py_format_2f E bill_sum of
             Inl exc \<Rightarrow> Inl exc
           | Inr energy \<Rightarrow>
               Inr (cps ''\<newline>    <div style="max-width: 1400px; margin: 0 auto; font-family: Arial, sans-serif;">\<newline>        <h3 style="color: #ffffff;"> Carbon Footprint Summary for ''
                 @ cps company_name
                 @ cps '' </h3>\<newline>        <ul style="color: #666;">\<newline>            <li>''
                 @ [0x1F3ED]
                 @ cps '' <strong>Total Carbon Impact</strong>: Calculated based on your inputs</li>\<newline>            <li>''
                 @ [0x1F4A1]
                 @ cps '' <strong>Energy Consumption</strong>: ''
                 @ [0x20AC]
                 @ cps energy
                 @ cps ''</li>\<newline>            <li>''
                 @ [0x1F697]
                 @ cps '' <strong>Transportation Emissions</strong>: ''
                 @ cps (py_str E annual_travel_kms)
                 @ cps '' km</li>\<newline>            <li>''
                 @ [0x1F5D1, 0xFE0F]
                 @ cps '' <strong>Waste Management</strong>: ''
                 @ cps (py_str E monthly_waste_generated)
                 @ cps '' kg (Recycled: ''
                 @ cps (py_str E recycled_waste_percent)
                 @ cps ''%)</li>\<newline>        </ul>\<newline>        <img src="data:image/png;base64,''
                 @ cps img_data
                 @ cps ''" style="max-width: 100%; height: auto;" alt="Carbon Footprint Report"/>\<newline>    </div>\<newline>    '')))\<close>

definition compute ::
  "('df, 'fig) environment \<Rightarrow> string \<Rightarrow> pyval \<Rightarrow> pyval \<Rightarrow> pyval \<Rightarrow> pyval \<Rightarrow> pyval \<Rightarrow> pyval \<Rightarrow> pyval
     \<Rightarrow> world \<Rightarrow> (pyexc + pystr \<times> download_button) \<times> world" where
  "compute E company_name avg_electric_bill avg_gas_bill avg_transport_cost
       monthly_waste_generated recycled_waste_percent annual_travel_kms fuel_efficiency s =
     (case validate_input company_name avg_electric_bill avg_gas_bill avg_transport_cost
             monthly_waste_generated recycled_waste_percent annual_travel_kms
             fuel_efficiency of
        Inl exc \<Rightarrow> (Inl exc, s)
      | Inr u \<Rightarrow>
          (let df = make_dataframe E company_name avg_electric_bill avg_gas_bill
                      avg_transport_cost monthly_waste_generated recycled_waste_percent
                      annual_travel_kms fuel_efficiency;
               plot = draw_report_figure E df;
               img_data = b64encode (to_image E plot 1400 800 ''png'');
               s' = s\<lparr>files := (files s)(file_path company_name \<mapsto>
                                 write_image E plot (file_path company_name) 1400 800),
                       calls := calls s @ [MakeDataframe, DrawReportFigure, ToImage,
                                           WriteImage (file_path company_name)]\<rparr>
           in (case render_summary E company_name avg_electric_bill avg_gas_bill
                     annual_travel_kms monthly_waste_generated recycled_waste_percent
                     img_data of
                 Inl exc \<Rightarrow> (Inl exc, s')
               | Inr summary \<Rightarrow>
                   (Inr (summary,
                         \<lparr>btn_label = ''Download Report'', btn_variant = ''secondary'',
                          btn_visible = True, btn_value = file_path company_name\<rparr>),
                    s'))))"

section \<open>The vocabulary of the properties\<close>

text \<open>
  A value is numeric when \<^verbatim>\<open>float\<close> converts it. The comparisons below are those of the
  converted value with an integer constant, and are false of a value that is not numeric.
  A NaN is numeric and neither below, equal to nor above any constant.
\<close>

definition non_numeric :: "pyval \<Rightarrow> bool" where
  "non_numeric v = (case py_float v of Inl exc \<Rightarrow> True | Inr x \<Rightarrow> False)"

definition numeric_le :: "pyval \<Rightarrow> int \<Rightarrow> bool" where
  "numeric_le v k = (case py_float v of Inl exc \<Rightarrow> False | Inr x \<Rightarrow> float_le x k)"

definition numeric_lt :: "pyval \<Rightarrow> int \<Rightarrow> bool" where
  "numeric_lt v k = (case py_float v of Inl exc \<Rightarrow> False | Inr x \<Rightarrow> float_lt x k)"

definition numeric_gt :: "pyval \<Rightarrow> int \<Rightarrow> bool" where
  "numeric_gt v k = (case py_float v of Inl exc \<Rightarrow> False | Inr x \<Rightarrow> float_gt x k)"

text \<open>A finite number of the closed interval from \<open>lo\<close> to \<open>hi\<close>.\<close>

definition numeric_between :: "pyval \<Rightarrow> int \<Rightarrow> int \<Rightarrow> bool" where
  "numeric_between v lo hi =
     (case py_float v of
        Inl exc \<Rightarrow> False
      | Inr x \<Rightarrow> (case x of Finite r \<Rightarrow> of_int lo \<le> r \<and> r \<le> of_int hi | _ \<Rightarrow> False))"

text \<open>The display names of the six fields that must be positive, and the two errors
  each of them has: not a number, and not positive.\<close>

definition positive_field_names :: "string list" where
  "positive_field_names =
     [''Electricity Bill'', ''Gas Bill'', ''Transport Cost'', ''Monthly Waste'',
      ''Annual Travel Distance'', ''Fuel Efficiency'']"

definition field_errors :: "string \<Rightarrow> pyexc list" where
  "field_errors name =
     [GrError (name @ '' must be a valid number!''),
      GrError (name @ '' must be a positive number greater than zero!'')]"

definition positive_field_errors :: "pyexc list" where
  "positive_field_errors = concat (map field_errors positive_field_names)"

definition blank_name_error :: pyexc where
  "blank_name_error = GrError ''Company name cannot be empty or just whitespace!''"

definition long_name_error :: pyexc where
  "long_name_error = GrError ''Company name is too long (maximum 100 characters)!''"

definition electricity_ceiling_error :: pyexc where
  "electricity_ceiling_error =
     GrError ''Electricity bill seems unrealistically high. Please check the amount!''"

definition waste_ceiling_error :: pyexc where
  "waste_ceiling_error =
     GrError ''Monthly waste generation seems extremely high. Please verify!''"

definition percent_number_error :: pyexc where
  "percent_number_error = GrError ''Recycled waste percentage must be a valid number!''"

definition percent_range_error :: pyexc where
  "percent_range_error = GrError ''Recycled waste percentage must be between 0 and 100!''"

text \<open>
  The checks of the validator, one at a time: each is \<open>Some\<close> error or \<open>None\<close>, and looks
  at one field only. \<open>first_error\<close> runs a list of checks in order and raises the error of
  the first that fails.
\<close>

fun first_error :: "pyexc option list \<Rightarrow> pyexc + unit" where
  "first_error [] = Inr ()"
| "first_error (None # cs) = first_error cs"
| "first_error (Some exc # cs) = Inl exc"

definition name_blank_check :: "string \<Rightarrow> pyexc option" where
  "name_blank_check n = (if n = [] \<or> isspace n then Some blank_name_error else None)"

definition name_length_check :: "string \<Rightarrow> pyexc option" where
  "name_length_check n = (if length n > 100 then Some long_name_error else None)"

definition number_check :: "string \<Rightarrow> pyval \<Rightarrow> pyexc option" where
  "number_check name v =
     (if non_numeric v then Some (GrError (name @ '' must be a valid number!'')) else None)"

definition positive_check :: "string \<Rightarrow> pyval \<Rightarrow> pyexc option" where
  "positive_check name v =
     (if numeric_le v 0
      then Some (GrError (name @ '' must be a positive number greater than zero!''))
      else None)"

definition electricity_ceiling_check :: "pyval \<Rightarrow> pyexc option" where
  "electricity_ceiling_check v =
     (if numeric_gt v 10000 then Some electricity_ceiling_error else None)"

definition waste_ceiling_check :: "pyval \<Rightarrow> pyexc option" where
  "waste_ceiling_check v = (if numeric_gt v 1000 then Some waste_ceiling_error else None)"

definition percent_range_check :: "pyval \<Rightarrow> pyexc option" where
  "percent_range_check v =
     (if numeric_lt v 0 \<or> numeric_gt v 100 then Some percent_range_error else None)"

definition validation_checks ::
  "string \<Rightarrow> pyval \<Rightarrow> pyval \<Rightarrow> pyval \<Rightarrow> pyval \<Rightarrow> pyval \<Rightarrow> pyval \<Rightarrow> pyval
     \<Rightarrow> pyexc option list" where
  "validation_checks n e g t w p k f =
     [name_blank_check n, name_length_check n,
      number_check ''Electricity Bill'' e, positive_check ''Electricity Bill'' e,
      electricity_ceiling_check e,
      number_check ''Gas Bill'' g, positive_check ''Gas Bill'' g,
      number_check ''Transport Cost'' t, positive_check ''Transport Cost'' t,
      number_check ''Monthly Waste'' w, positive_check ''Monthly Waste'' w,
      waste_ceiling_check w,
      number_check ''Annual Travel Distance'' k, positive_check ''Annual Travel Distance'' k,
      number_check ''Fuel Efficiency'' f, positive_check ''Fuel Efficiency'' f,
      number_check ''Recycled waste percentage'' p, percent_range_check p]"

text \<open>The checks the loop makes for one entry of \<^verbatim>\<open>non_zero_fields\<close>.\<close>

definition field_checks :: "string \<times> pyval \<Rightarrow> pyexc option list" where
  "field_checks nv =
     [number_check (fst nv) (snd nv), positive_check (fst nv) (snd nv)]
     @ (if fst nv = ''Electricity Bill'' then [electricity_ceiling_check (snd nv)] else [])
     @ (if fst nv = ''Monthly Waste'' then [waste_ceiling_check (snd nv)] else [])"

text \<open>The local variables \<^verbatim>\<open>plot\<close> and \<^verbatim>\<open>img_data\<close> of \<open>compute\<close>, as functions of its
  arguments.\<close>

definition report_plot ::
  "('df, 'fig) environment \<Rightarrow> string \<Rightarrow> pyval \<Rightarrow> pyval \<Rightarrow> pyval \<Rightarrow> pyval \<Rightarrow> pyval \<Rightarrow> pyval \<Rightarrow> pyval
     \<Rightarrow> 'fig" where
  "report_plot E n e g t w p k f = draw_report_figure E (make_dataframe E n e g t w p k f)"

definition report_img_data ::
  "('df, 'fig) environment \<Rightarrow> string \<Rightarrow> pyval \<Rightarrow> pyval \<Rightarrow> pyval \<Rightarrow> pyval \<Rightarrow> pyval \<Rightarrow> pyval \<Rightarrow> pyval
     \<Rightarrow> string" where
  "report_img_data E n e g t w p k f =
     b64encode (to_image E (report_plot E n e g t w p k f) 1400 800 ''png'')"

text \<open>The file name as the specification words it: the company name lowercased, its
  spaces stripped out, truncated, with the report suffix appended.\<close>

definition space_stripped_file_path :: "string \<Rightarrow> string" where
  "space_stripped_file_path company_name =
     ''./reports/''
     @ take 10 (filter (\<lambda>c. c \<noteq> CHR '' '') (str_lower company_name))
     @ ''_report.pdf''"

text \<open>
  An environment to run \<open>compute\<close> in: the dataframe and the figure are the company name,
  the image and the report file are a marker byte followed by the name, and the numbers
  print as fixed text.
\<close>

definition example_environment :: "(string, string) environment" where
  "example_environment =
     \<lparr>make_dataframe = (\<lambda>n e g t w p k f. n),
      draw_report_figure = (\<lambda>df. df),
      to_image = (\<lambda>fig width height fmt. 0x89 # map of_char fig),
      write_image = (\<lambda>fig path width height. 0x25 # map of_char fig),
      float_add = (\<lambda>x y. x),
      format_2f = (\<lambda>x. ''2.00''),
      float_str = (\<lambda>x. ''1.0'')\<rparr>"

definition empty_world :: world where
  "empty_world = \<lparr>files = Map.empty, calls = []\<rparr>"

section \<open>The validator runs its checks in order\<close>

lemma first_error_append:
  "first_error (cs @ ds) =
     (case first_error cs of Inl exc \<Rightarrow> Inl exc | Inr u \<Rightarrow> first_error ds)"
  by (induction cs rule: first_error.induct) simp_all

lemma first_error_Inl_mem: "first_error cs = Inl exc \<Longrightarrow> Some exc \<in> set cs"
  by (induction cs rule: first_error.induct) simp_all

lemma numeric_Inl:
  "py_float v = Inl exc \<Longrightarrow>
     non_numeric v \<and> \<not> numeric_le v k \<and> \<not> numeric_gt v k \<and> \<not> numeric_lt v k \<and> exc = TypeError"
  by (cases v) (simp_all add: non_numeric_def numeric_le_def numeric_gt_def numeric_lt_def)

lemma numeric_Inr:
  "py_float v = Inr x \<Longrightarrow>
     \<not> non_numeric v \<and> numeric_le v k = float_le x k \<and> numeric_gt v k = float_gt x k
       \<and> numeric_lt v k = float_lt x k"
  by (cases v) (simp_all add: non_numeric_def numeric_le_def numeric_gt_def numeric_lt_def)

lemma float_le_0_not_gt: "float_le x 0 \<Longrightarrow> \<not> float_gt x 10000 \<and> \<not> float_gt x 1000"
  by (cases x) simp_all

lemma check_non_zero_step:
  "check_non_zero ((name, v) # rest) =
     (case first_error (field_checks (name, v)) of
        Inl exc \<Rightarrow> Inl exc
      | Inr u \<Rightarrow> check_non_zero rest)"
proof (cases "py_float v")
  case (Inl exc)
  then show ?thesis
    using numeric_Inl [OF Inl]
    by (simp add: field_checks_def number_check_def)
next
  case (Inr x)
  then show ?thesis
    using numeric_Inr [OF Inr] float_le_0_not_gt [of x]
    by (simp add: field_checks_def number_check_def positive_check_def
        electricity_ceiling_check_def waste_ceiling_check_def
        electricity_ceiling_error_def waste_ceiling_error_def)
qed

lemma check_non_zero_checks:
  "check_non_zero fs = first_error (concat (map field_checks fs))"
proof (induction fs)
  case Nil
  show ?case by simp
next
  case (Cons nv fs)
  obtain name v where nv: "nv = (name, v)" by (cases nv)
  show ?case
    unfolding nv check_non_zero_step
    by (simp add: first_error_append Cons.IH split: sum.splits)
qed

lemma name_checks:
  "(if n = [] \<or> isspace n
    then Inl (GrError ''Company name cannot be empty or just whitespace!'')
    else if length n > 100
    then Inl (GrError ''Company name is too long (maximum 100 characters)!'')
    else X) =
   (case first_error [name_blank_check n, name_length_check n] of
      Inl exc \<Rightarrow> Inl exc | Inr u \<Rightarrow> X)"
  by (simp add: name_blank_check_def name_length_check_def blank_name_error_def
      long_name_error_def)

lemma percent_checks:
  "(case py_float p of
      Inl exc \<Rightarrow>
        (if exc = TypeError \<or> exc = ValueError
         then Inl (GrError ''Recycled waste percentage must be a valid number!'')
         else Inl exc)
    | Inr recycled_percent \<Rightarrow>
        if float_lt recycled_percent 0 \<or> float_gt recycled_percent 100
        then Inl (GrError ''Recycled waste percentage must be between 0 and 100!'')
        else Inr ()) =
   first_error [number_check ''Recycled waste percentage'' p, percent_range_check p]"
  by (cases p)
     (simp_all add: number_check_def percent_range_check_def non_numeric_def
        numeric_lt_def numeric_gt_def percent_range_error_def)

lemma field_list:
  "concat (map field_checks (non_zero_fields e g t w k f)) =
     [number_check ''Electricity Bill'' e, positive_check ''Electricity Bill'' e,
      electricity_ceiling_check e,
      number_check ''Gas Bill'' g, positive_check ''Gas Bill'' g,
      number_check ''Transport Cost'' t, positive_check ''Transport Cost'' t,
      number_check ''Monthly Waste'' w, positive_check ''Monthly Waste'' w,
      waste_ceiling_check w,
      number_check ''Annual Travel Distance'' k, positive_check ''Annual Travel Distance'' k,
      number_check ''Fuel Efficiency'' f, positive_check ''Fuel Efficiency'' f]"
  by (simp add: non_zero_fields_def field_checks_def)

lemma validate_input_checks:
  "validate_input n e g t w p k f = first_error (validation_checks n e g t w p k f)"
proof -
  have split: "validation_checks n e g t w p k f =
      [name_blank_check n, name_length_check n]
      @ concat (map field_checks (non_zero_fields e g t w k f))
      @ [number_check ''Recycled waste percentage'' p, percent_range_check p]"
    unfolding field_list validation_checks_def by simp
  show ?thesis
    unfolding split first_error_append validate_input_def name_checks
      check_non_zero_checks percent_checks ..
qed

lemma first_error_isl_iff: "isl (first_error cs) = list_ex (\<lambda>c. c \<noteq> None) cs"
  by (induction cs rule: first_error.induct) simp_all

lemma first_error_Inr_iff: "(first_error cs = Inr ()) = list_all (\<lambda>c. c = None) cs"
  by (induction cs rule: first_error.induct) simp_all

lemmas error_defs =
  blank_name_error_def long_name_error_def electricity_ceiling_error_def
  waste_ceiling_error_def percent_number_error_def percent_range_error_def

lemmas check_defs =
  name_blank_check_def name_length_check_def number_check_def positive_check_def
  electricity_ceiling_check_def waste_ceiling_check_def percent_range_check_def

lemma positive_field_errors_list:
  "positive_field_errors =
     [GrError ''Electricity Bill must be a valid number!'',
      GrError ''Electricity Bill must be a positive number greater than zero!'',
      GrError ''Gas Bill must be a valid number!'',
      GrError ''Gas Bill must be a positive number greater than zero!'',
      GrError ''Transport Cost must be a valid number!'',
      GrError ''Transport Cost must be a positive number greater than zero!'',
      GrError ''Monthly Waste must be a valid number!'',
      GrError ''Monthly Waste must be a positive number greater than zero!'',
      GrError ''Annual Travel Distance must be a valid number!'',
      GrError ''Annual Travel Distance must be a positive number greater than zero!'',
      GrError ''Fuel Efficiency must be a valid number!'',
      GrError ''Fuel Efficiency must be a positive number greater than zero!'']"
  by (simp add: positive_field_errors_def positive_field_names_def field_errors_def)

lemma positive_checks_None:
  "numeric_gt v 0 \<Longrightarrow> number_check name v = None \<and> positive_check name v = None"
  by (cases v; cases "case v of PyFloat x \<Rightarrow> x | PyNone \<Rightarrow> NaN")
     (simp_all add: number_check_def positive_check_def non_numeric_def numeric_gt_def
        numeric_le_def)

lemma between_checks_None:
  "numeric_between v 0 100 \<Longrightarrow>
     number_check name v = None \<and> percent_range_check v = None"
  by (cases v; cases "case v of PyFloat x \<Rightarrow> x | PyNone \<Rightarrow> NaN")
     (simp_all add: number_check_def percent_range_check_def non_numeric_def numeric_gt_def
        numeric_lt_def numeric_between_def)

lemma check_errors:
  "Some err = name_blank_check n \<Longrightarrow> err = blank_name_error"
  "Some err = name_length_check n \<Longrightarrow> err = long_name_error"
  "Some err = number_check name v \<Longrightarrow> err = GrError (name @ '' must be a valid number!'')"
  "Some err = positive_check name v \<Longrightarrow>
     err = GrError (name @ '' must be a positive number greater than zero!'')"
  "Some err = electricity_ceiling_check v \<Longrightarrow> err = electricity_ceiling_error"
  "Some err = waste_ceiling_check v \<Longrightarrow> err = waste_ceiling_error"
  "Some err = percent_range_check v \<Longrightarrow> err = percent_range_error"
  by (simp_all add: check_defs split: if_splits)

lemma validate_input_error_mem:
  "validate_input n e g t w p k f = Inl err \<Longrightarrow>
     Some err \<in> set (validation_checks n e g t w p k f)"
  unfolding validate_input_checks by (rule first_error_Inl_mem)

text \<open>The errors of the checks before the percentage, of those that are not about a
  positive field, and of those after the name.\<close>

lemma errors_without_percent:
  assumes "validate_input n e g t w p k f = Inl err"
    and "number_check ''Recycled waste percentage'' p = None"
    and "percent_range_check p = None"
  shows "err \<in> set ([blank_name_error, long_name_error, electricity_ceiling_error,
                     waste_ceiling_error] @ positive_field_errors)"
  using validate_input_error_mem [OF assms(1)] assms(2,3)
  unfolding validation_checks_def positive_field_errors_list
  by (auto dest!: check_errors)

lemma errors_without_positive:
  assumes "validate_input n e g t w p k f = Inl err"
    and "list_all (\<lambda>v. numeric_gt v 0) [e, g, t, w, k, f]"
  shows "err \<in> set [blank_name_error, long_name_error, electricity_ceiling_error,
                     waste_ceiling_error, percent_number_error, percent_range_error]"
proof -
  have none: "number_check name v = None \<and> positive_check name v = None"
    if "v \<in> set [e, g, t, w, k, f]" for name v
    using that assms(2) positive_checks_None [of v name] by auto
  show ?thesis
    using validate_input_error_mem [OF assms(1)]
    unfolding validation_checks_def
    by (auto simp: none percent_number_error_def dest!: check_errors)
qed

lemma errors_without_name:
  assumes "validate_input n e g t w p k f = Inl err"
    and "name_blank_check n = None" and "name_length_check n = None"
  shows "err \<in> set ([electricity_ceiling_error, waste_ceiling_error, percent_number_error,
                     percent_range_error] @ positive_field_errors)"
  using validate_input_error_mem [OF assms(1)] assms(2,3)
  unfolding validation_checks_def positive_field_errors_list
  by (auto simp: percent_number_error_def dest!: check_errors)

lemma errors_distinct:
  "distinct ([blank_name_error, long_name_error, electricity_ceiling_error,
              waste_ceiling_error, percent_number_error, percent_range_error]
             @ positive_field_errors)"
  unfolding positive_field_errors_list error_defs by simp

lemma isspace_replicate: "isspace (replicate m c) = (m \<noteq> 0 \<and> is_whitespace c)"
  by (cases m) (auto simp: isspace_def list_all_iff)

section \<open>What compute does\<close>






lemma cps_Nil_iff: "cps s = [] \<longleftrightarrow> s = []"
  by (simp add: cps_def)

lemma non_numeric_iff: "non_numeric v \<longleftrightarrow> v = PyNone"
  by (cases v) (simp_all add: non_numeric_def)

lemma validate_input_ok_floats:
  assumes "validate_input n e g t w p k f = Inr ()"
  shows "\<exists>x y. e = PyFloat x \<and> g = PyFloat y"
proof -
  have "number_check ''Electricity Bill'' e = None" "number_check ''Gas Bill'' g = None"
    using assms
    unfolding validate_input_checks first_error_Inr_iff validation_checks_def by simp_all
  then have "e \<noteq> PyNone" "g \<noteq> PyNone"
    by (auto simp: number_check_def non_numeric_iff split: if_splits)
  then show ?thesis
    by (cases e; cases g) simp_all
qed

lemma sublist_piece_21:
  "sublist m (a1 @ a2 @ a3 @ a4 @ a5 @ a6 @ a7 @ a8 @ a9 @ a10 @ a11 @ a12 @ a13 @ a14
      @ a15 @ a16 @ a17 @ a18 @ a19 @ a20 @ m @ z)"
  using sublist_appendI [of m "a1 @ a2 @ a3 @ a4 @ a5 @ a6 @ a7 @ a8 @ a9 @ a10 @ a11 @ a12
      @ a13 @ a14 @ a15 @ a16 @ a17 @ a18 @ a19 @ a20" z]
  by (simp only: append_assoc)

lemma render_summary_floats:
  "\<exists>summary. render_summary E n (PyFloat x) (PyFloat y) k w p img = Inr summary
     \<and> summary \<noteq> [] \<and> sublist (cps img) summary"
  unfolding render_summary_def
  by (simp only: py_add.simps py_format_2f.simps sum.case sum.inject simp_thms ex_simps
        sublist_piece_21 append_is_Nil_conv cps_Nil_iff list.distinct)

lemma compute_valid:
  assumes "validate_input n e g t w p k f = Inr ()"
  shows "\<exists>summary.
           (\<forall>s. compute E n e g t w p k f s =
             (Inr (summary,
                   \<lparr>btn_label = ''Download Report'', btn_variant = ''secondary'',
                    btn_visible = True, btn_value = file_path n\<rparr>),
              s\<lparr>files := (files s)(file_path n \<mapsto>
                    write_image E (report_plot E n e g t w p k f) (file_path n) 1400 800),
                calls := calls s @ [MakeDataframe, DrawReportFigure, ToImage,
                                    WriteImage (file_path n)]\<rparr>))
           \<and> summary \<noteq> [] \<and> sublist (cps (report_img_data E n e g t w p k f)) summary"
proof -
  obtain x y where xy: "e = PyFloat x" "g = PyFloat y"
    using validate_input_ok_floats [OF assms] by blast
  obtain summary where
    summary: "render_summary E n e g k w p (report_img_data E n e g t w p k f) = Inr summary"
      "summary \<noteq> []" "sublist (cps (report_img_data E n e g t w p k f)) summary"
    using render_summary_floats [of E n x y k w p "report_img_data E n e g t w p k f"]
    unfolding xy by blast
  have "compute E n e g t w p k f s =
             (Inr (summary,
                   \<lparr>btn_label = ''Download Report'', btn_variant = ''secondary'',
                    btn_visible = True, btn_value = file_path n\<rparr>),
              s\<lparr>files := (files s)(file_path n \<mapsto>
                    write_image E (report_plot E n e g t w p k f) (file_path n) 1400 800),
                calls := calls s @ [MakeDataframe, DrawReportFigure, ToImage,
                                    WriteImage (file_path n)]\<rparr>)" for s
    using summary(1) unfolding report_img_data_def report_plot_def
    by (simp add: compute_def assms Let_def)
  with summary(2,3) show ?thesis by blast
qed


lemma str_replace_removes:
  "old \<noteq> new \<Longrightarrow> old \<notin> set (take m (str_replace old new s))"
proof -
  assume "old \<noteq> new"
  then have "old \<notin> set (str_replace old new s)"
    by (auto simp: str_replace_def)
  then show ?thesis
    using set_take_subset [of m "str_replace old new s"] by blast
qed

lemma example_valid:
  "n \<noteq> [] \<Longrightarrow> \<not> isspace n \<Longrightarrow> length n \<le> 100 \<Longrightarrow>
     validate_input n (PyFloat (Finite 1)) (PyFloat (Finite 1)) (PyFloat (Finite 1))
       (PyFloat (Finite 1)) (PyFloat (Finite 1)) (PyFloat (Finite 1)) (PyFloat (Finite 1)) =
     Inr ()"
  by (simp add: validate_input_def non_zero_fields_def)

lemma example_paths:
  "file_path ''Acme Corp'' = ''./reports/acme_corp_report.pdf''"
  "space_stripped_file_path ''Acme Corp'' = ''./reports/acmecorp_report.pdf''"
  "file_path ''Acme Corporation'' = ''./reports/acme_corpo_report.pdf''"
  "file_path ''acme_corporate'' = ''./reports/acme_corpo_report.pdf''"
  by (simp_all add: file_path_def space_stripped_file_path_def str_lower_def
      str_replace_def lower_char_def char_of_def bit_Suc_0_iff)

lemma example_names:
  "\<not> isspace ''Acme Corp''" "\<not> isspace ''Acme Corporation''" "\<not> isspace ''acme_corporate''"
  by (simp_all add: isspace_def is_whitespace_def)

section \<open>Properties of validate\_input\<close>

text \<open>
  C1: for every submission, \<open>validate_input\<close> raises an error whenever one of the six
  fields that must be positive (electricity bill, gas bill, transport cost, monthly waste,
  annual travel kms, fuel efficiency) is non-numeric or at most 0; and when all six are
  numeric and above 0, it raises none of the errors of the six positive fields.
\<close>

theorem validate_input_positive_fields:
  "(list_ex (\<lambda>v. non_numeric v \<or> numeric_le v 0) [e, g, t, w, k, f]
      \<longrightarrow> isl (validate_input n e g t w p k f))
   \<and> (list_all (\<lambda>v. numeric_gt v 0) [e, g, t, w, k, f]
      \<longrightarrow> list_all (\<lambda>err. validate_input n e g t w p k f \<noteq> Inl err)
            positive_field_errors)"
proof (intro conjI impI)
  assume "list_ex (\<lambda>v. non_numeric v \<or> numeric_le v 0) [e, g, t, w, k, f]"
  then show "isl (validate_input n e g t w p k f)"
    unfolding validate_input_checks first_error_isl_iff validation_checks_def
    by (auto simp: number_check_def positive_check_def)
next
  assume pos: "list_all (\<lambda>v. numeric_gt v 0) [e, g, t, w, k, f]"
  have "err \<notin> set positive_field_errors"
    if "validate_input n e g t w p k f = Inl err" for err
    using errors_without_positive [OF that pos] errors_distinct by auto
  then show "list_all (\<lambda>err. validate_input n e g t w p k f \<noteq> Inl err)
      positive_field_errors"
    unfolding list_all_iff by blast
qed

theorem validate_input_positive_fields_witness:
  "list_ex (\<lambda>v. non_numeric v \<or> numeric_le v 0)
     [PyFloat (Finite 120), PyNone, PyFloat (Finite 30), PyFloat (Finite 0),
      PyFloat (Finite 5000), PyFloat (Finite 7)]
   \<and> isl (validate_input ''Acme'' (PyFloat (Finite 120)) PyNone (PyFloat (Finite 30))
        (PyFloat (Finite 0)) (PyFloat (Finite 25)) (PyFloat (Finite 5000))
        (PyFloat (Finite 7)))
   \<and> list_all (\<lambda>v. numeric_gt v 0)
     [PyFloat (Finite 120), PyFloat (Finite 80), PyFloat (Finite 30), PyFloat (Finite 40),
      PyFloat (Finite 5000), PyFloat (Finite 7)]
   \<and> list_all (\<lambda>err. validate_input ''Acme'' (PyFloat (Finite 120)) (PyFloat (Finite 80))
        (PyFloat (Finite 30)) (PyFloat (Finite 40)) (PyFloat (Finite 250))
        (PyFloat (Finite 5000)) (PyFloat (Finite 7)) \<noteq> Inl err) positive_field_errors"
proof -
  have bad: "list_ex (\<lambda>v. non_numeric v \<or> numeric_le v 0)
     [PyFloat (Finite 120), PyNone, PyFloat (Finite 30), PyFloat (Finite 0),
      PyFloat (Finite 5000), PyFloat (Finite 7)]"
    by (simp add: non_numeric_def numeric_le_def)
  have good: "list_all (\<lambda>v. numeric_gt v 0)
     [PyFloat (Finite 120), PyFloat (Finite 80), PyFloat (Finite 30), PyFloat (Finite 40),
      PyFloat (Finite 5000), PyFloat (Finite 7)]"
    by (simp add: numeric_gt_def)
  show ?thesis
    using bad good
      validate_input_positive_fields [of "PyFloat (Finite 120)" PyNone "PyFloat (Finite 30)"
        "PyFloat (Finite 0)" "PyFloat (Finite 5000)" "PyFloat (Finite 7)" "''Acme''"
        "PyFloat (Finite 25)"]
      validate_input_positive_fields [of "PyFloat (Finite 120)" "PyFloat (Finite 80)"
        "PyFloat (Finite 30)" "PyFloat (Finite 40)" "PyFloat (Finite 5000)"
        "PyFloat (Finite 7)" "''Acme''" "PyFloat (Finite 250)"]
    by blast
qed

text \<open>
  C2: \<open>validate_input\<close> rejects every recycled waste percentage strictly below 0 or
  strictly above 100; for a numeric percentage in the closed interval from 0 to 100 it
  raises neither of the two percentage errors, and the boundary values 0 and 100 are
  accepted: a submission that is valid with some percentage is valid with either of them,
  and with every percentage of the interval.
\<close>

theorem validate_input_percentage:
  "(numeric_lt p 0 \<or> numeric_gt p 100 \<longrightarrow> isl (validate_input n e g t w p k f))
   \<and> (numeric_between p 0 100 \<longrightarrow>
        validate_input n e g t w p k f \<noteq> Inl percent_number_error
        \<and> validate_input n e g t w p k f \<noteq> Inl percent_range_error)
   \<and> (validate_input n e g t w p' k f = Inr () \<longrightarrow>
        validate_input n e g t w (PyFloat (Finite 0)) k f = Inr ()
        \<and> validate_input n e g t w (PyFloat (Finite 100)) k f = Inr ()
        \<and> (numeric_between p 0 100 \<longrightarrow> validate_input n e g t w p k f = Inr ()))"
proof (intro conjI impI)
  assume "numeric_lt p 0 \<or> numeric_gt p 100"
  then show "isl (validate_input n e g t w p k f)"
    unfolding validate_input_checks first_error_isl_iff validation_checks_def
    by (simp add: percent_range_check_def)
next
  assume b: "numeric_between p 0 100"
  have mem: "err \<in> set ([blank_name_error, long_name_error, electricity_ceiling_error,
                     waste_ceiling_error] @ positive_field_errors)"
    if "validate_input n e g t w p k f = Inl err" for err
    using errors_without_percent [OF that]
      between_checks_None [OF b, of "''Recycled waste percentage''"] by simp
  show "validate_input n e g t w p k f \<noteq> Inl percent_number_error"
    using mem [of percent_number_error] errors_distinct by auto
  show "validate_input n e g t w p k f \<noteq> Inl percent_range_error"
    using mem [of percent_range_error] errors_distinct by auto
next
  assume ok: "validate_input n e g t w p' k f = Inr ()"
  have rest: "validate_input n e g t w q k f = Inr ()" if "numeric_between q 0 100" for q
    using ok between_checks_None [OF that]
    unfolding validate_input_checks first_error_Inr_iff validation_checks_def by simp
  show "validate_input n e g t w (PyFloat (Finite 0)) k f = Inr ()"
    by (rule rest) (simp add: numeric_between_def)
  show "validate_input n e g t w (PyFloat (Finite 100)) k f = Inr ()"
    by (rule rest) (simp add: numeric_between_def)
  show "validate_input n e g t w p k f = Inr ()" if "numeric_between p 0 100"
    using that by (rule rest)
qed

theorem validate_input_percentage_witness:
  "numeric_gt (PyFloat (Finite 101)) 100
   \<and> isl (validate_input ''Acme'' (PyFloat (Finite 120)) (PyFloat (Finite 80))
        (PyFloat (Finite 30)) (PyFloat (Finite 40)) (PyFloat (Finite 101))
        (PyFloat (Finite 5000)) (PyFloat (Finite 7)))
   \<and> numeric_between (PyFloat (Finite 100)) 0 100
   \<and> validate_input ''Acme'' (PyFloat (Finite 120)) (PyFloat (Finite 80))
        (PyFloat (Finite 30)) (PyFloat (Finite 40)) (PyFloat (Finite 50))
        (PyFloat (Finite 5000)) (PyFloat (Finite 7)) = Inr ()
   \<and> validate_input ''Acme'' (PyFloat (Finite 120)) (PyFloat (Finite 80))
        (PyFloat (Finite 30)) (PyFloat (Finite 40)) (PyFloat (Finite 0))
        (PyFloat (Finite 5000)) (PyFloat (Finite 7)) = Inr ()
   \<and> validate_input ''Acme'' (PyFloat (Finite 120)) (PyFloat (Finite 80))
        (PyFloat (Finite 30)) (PyFloat (Finite 40)) (PyFloat (Finite 100))
        (PyFloat (Finite 5000)) (PyFloat (Finite 7)) = Inr ()"
proof -
  have above: "numeric_gt (PyFloat (Finite 101)) 100"
    by (simp add: numeric_gt_def)
  have inside: "numeric_between (PyFloat (Finite 100)) 0 100"
    by (simp add: numeric_between_def)
  have ok: "validate_input ''Acme'' (PyFloat (Finite 120)) (PyFloat (Finite 80))
        (PyFloat (Finite 30)) (PyFloat (Finite 40)) (PyFloat (Finite 50))
        (PyFloat (Finite 5000)) (PyFloat (Finite 7)) = Inr ()"
    by (simp add: validate_input_def non_zero_fields_def isspace_def is_whitespace_def)
  show ?thesis
    using above inside ok
      validate_input_percentage [of "PyFloat (Finite 101)" "''Acme''" "PyFloat (Finite 120)"
        "PyFloat (Finite 80)" "PyFloat (Finite 30)" "PyFloat (Finite 40)"
        "PyFloat (Finite 5000)" "PyFloat (Finite 7)" "PyFloat (Finite 50)"]
      validate_input_percentage [of "PyFloat (Finite 100)" "''Acme''" "PyFloat (Finite 120)"
        "PyFloat (Finite 80)" "PyFloat (Finite 30)" "PyFloat (Finite 40)"
        "PyFloat (Finite 5000)" "PyFloat (Finite 7)" "PyFloat (Finite 50)"]
    by blast
qed

text \<open>
  C3: \<open>validate_input\<close> rejects a company name that is empty or consists of whitespace
  only, with the error of the blank name; it rejects every company name longer than 100
  characters, a name of 101 characters in particular, with the error of the long name
  when the name is not blank; and for a name of exactly 100 characters that is not
  whitespace it raises neither of the two company name errors.
\<close>

theorem validate_input_company_name:
  "(n = [] \<or> isspace n \<longrightarrow> validate_input n e g t w p k f = Inl blank_name_error)
   \<and> (length n > 100 \<longrightarrow> isl (validate_input n e g t w p k f))
   \<and> (length n = 101 \<longrightarrow> isl (validate_input n e g t w p k f))
   \<and> (length n > 100 \<and> \<not> isspace n \<longrightarrow> validate_input n e g t w p k f = Inl long_name_error)
   \<and> (length n = 100 \<and> \<not> isspace n \<longrightarrow>
        validate_input n e g t w p k f \<noteq> Inl blank_name_error
        \<and> validate_input n e g t w p k f \<noteq> Inl long_name_error)"
proof (intro conjI impI)
  assume "n = [] \<or> isspace n"
  then show "validate_input n e g t w p k f = Inl blank_name_error"
    by (simp add: validate_input_def blank_name_error_def)
next
  assume "length n > 100"
  then show "isl (validate_input n e g t w p k f)"
    by (simp add: validate_input_def)
next
  assume "length n = 101"
  then show "isl (validate_input n e g t w p k f)"
    by (simp add: validate_input_def)
next
  assume "length n > 100 \<and> \<not> isspace n"
  then show "validate_input n e g t w p k f = Inl long_name_error"
    by (auto simp: validate_input_def long_name_error_def)
next
  assume a: "length n = 100 \<and> \<not> isspace n"
  then have none: "name_blank_check n = None" "name_length_check n = None"
    by (auto simp: name_blank_check_def name_length_check_def)
  have mem: "err \<in> set ([electricity_ceiling_error, waste_ceiling_error,
      percent_number_error, percent_range_error] @ positive_field_errors)"
    if "validate_input n e g t w p k f = Inl err" for err
    using errors_without_name [OF that none] .
  show "validate_input n e g t w p k f \<noteq> Inl blank_name_error"
    using mem [of blank_name_error] errors_distinct by auto
  show "validate_input n e g t w p k f \<noteq> Inl long_name_error"
    using mem [of long_name_error] errors_distinct by auto
qed

theorem validate_input_company_name_witness:
  "isspace ''   ''
   \<and> validate_input ''   '' (PyFloat (Finite 120)) (PyFloat (Finite 80))
        (PyFloat (Finite 30)) (PyFloat (Finite 40)) (PyFloat (Finite 50))
        (PyFloat (Finite 5000)) (PyFloat (Finite 7)) = Inl blank_name_error
   \<and> validate_input [] (PyFloat (Finite 120)) (PyFloat (Finite 80))
        (PyFloat (Finite 30)) (PyFloat (Finite 40)) (PyFloat (Finite 50))
        (PyFloat (Finite 5000)) (PyFloat (Finite 7)) = Inl blank_name_error
   \<and> length (replicate 101 CHR ''a'') = 101 \<and> \<not> isspace (replicate 101 CHR ''a'')
   \<and> isl (validate_input (replicate 101 CHR ''a'') (PyFloat (Finite 120))
        (PyFloat (Finite 80)) (PyFloat (Finite 30)) (PyFloat (Finite 40))
        (PyFloat (Finite 50)) (PyFloat (Finite 5000)) (PyFloat (Finite 7)))
   \<and> validate_input (replicate 101 CHR ''a'') (PyFloat (Finite 120)) (PyFloat (Finite 80))
        (PyFloat (Finite 30)) (PyFloat (Finite 40)) (PyFloat (Finite 50))
        (PyFloat (Finite 5000)) (PyFloat (Finite 7)) = Inl long_name_error
   \<and> length (replicate 100 CHR ''a'') = 100 \<and> \<not> isspace (replicate 100 CHR ''a'')
   \<and> validate_input (replicate 100 CHR ''a'') (PyFloat (Finite 120)) (PyFloat (Finite 80))
        (PyFloat (Finite 30)) (PyFloat (Finite 40)) (PyFloat (Finite 50))
        (PyFloat (Finite 5000)) (PyFloat (Finite 7)) \<noteq> Inl long_name_error"
proof -
  define long where "long = replicate 101 CHR ''a''"
  define full where "full = replicate 100 CHR ''a''"
  have blank: "isspace ''   ''"
    by (simp add: isspace_def is_whitespace_def)
  have long: "length long = 101" "\<not> isspace long"
    unfolding long_def by (simp_all add: isspace_replicate is_whitespace_def)
  have full: "length full = 100" "\<not> isspace full"
    unfolding full_def by (simp_all add: isspace_replicate is_whitespace_def)
  note args = validate_input_company_name [where e = "PyFloat (Finite 120)"
      and g = "PyFloat (Finite 80)" and t = "PyFloat (Finite 30)"
      and w = "PyFloat (Finite 40)" and p = "PyFloat (Finite 50)"
      and k = "PyFloat (Finite 5000)" and f = "PyFloat (Finite 7)"]
  have r1: "validate_input ''   '' (PyFloat (Finite 120)) (PyFloat (Finite 80))
        (PyFloat (Finite 30)) (PyFloat (Finite 40)) (PyFloat (Finite 50))
        (PyFloat (Finite 5000)) (PyFloat (Finite 7)) = Inl blank_name_error"
    using args [of "''   ''"] blank by (elim conjE) simp
  have r2: "validate_input [] (PyFloat (Finite 120)) (PyFloat (Finite 80))
        (PyFloat (Finite 30)) (PyFloat (Finite 40)) (PyFloat (Finite 50))
        (PyFloat (Finite 5000)) (PyFloat (Finite 7)) = Inl blank_name_error"
    using args [of "[]"] by (elim conjE) simp
  have r3: "validate_input long (PyFloat (Finite 120)) (PyFloat (Finite 80))
        (PyFloat (Finite 30)) (PyFloat (Finite 40)) (PyFloat (Finite 50))
        (PyFloat (Finite 5000)) (PyFloat (Finite 7)) = Inl long_name_error"
    using args [of long] long by (elim conjE) simp
  have r3': "isl (validate_input long (PyFloat (Finite 120)) (PyFloat (Finite 80))
        (PyFloat (Finite 30)) (PyFloat (Finite 40)) (PyFloat (Finite 50))
        (PyFloat (Finite 5000)) (PyFloat (Finite 7)))"
    using args [of long] long by (elim conjE) simp
  have r4: "validate_input full (PyFloat (Finite 120)) (PyFloat (Finite 80))
        (PyFloat (Finite 30)) (PyFloat (Finite 40)) (PyFloat (Finite 50))
        (PyFloat (Finite 5000)) (PyFloat (Finite 7)) \<noteq> Inl long_name_error"
    using args [of full] full by (elim conjE) simp
  from blank r1 r2 long r3' r3 full r4 show ?thesis
    unfolding long_def full_def by (intro conjI)
qed


text \<open>
  C4: \<open>validate_input\<close> enforces the two sanity ceilings. An electricity bill strictly
  above 10000 is rejected, while a bill of exactly 10000 (as any bill that is not above
  it) raises no ceiling error and is accepted where another bill is; a monthly waste
  strictly above 1000 is rejected, while a waste at or below 1000 raises no waste
  ceiling error.
\<close>

theorem validate_input_ceilings:
  "(numeric_gt e 10000 \<longrightarrow> isl (validate_input n e g t w p k f))
   \<and> validate_input n (PyFloat (Finite 10000)) g t w p k f \<noteq> Inl electricity_ceiling_error
   \<and> (numeric_le e 10000 \<longrightarrow> validate_input n e g t w p k f \<noteq> Inl electricity_ceiling_error)
   \<and> (validate_input n e g t w p k f = Inr () \<longrightarrow>
        validate_input n (PyFloat (Finite 10000)) g t w p k f = Inr ())
   \<and> (numeric_gt w 1000 \<longrightarrow> isl (validate_input n e g t w p k f))
   \<and> (numeric_le w 1000 \<longrightarrow> validate_input n e g t w p k f \<noteq> Inl waste_ceiling_error)"
proof -
  have le_gt: "\<not> numeric_gt v c" if "numeric_le v c" for v c
  proof (cases v)
    case (PyFloat x)
    with that show ?thesis
      by (cases x) (simp_all add: numeric_le_def numeric_gt_def)
  next
    case PyNone
    then show ?thesis by (simp add: numeric_gt_def)
  qed
  have no_elec: "validate_input n e' g t w p k f \<noteq> Inl electricity_ceiling_error"
    if "\<not> numeric_gt e' 10000" for e'
  proof
    assume "validate_input n e' g t w p k f = Inl electricity_ceiling_error"
    from validate_input_error_mem [OF this] that show False
      unfolding validation_checks_def
      by (auto simp: electricity_ceiling_check_def error_defs dest!: check_errors)
  qed
  have no_waste: "validate_input n e g t w p k f \<noteq> Inl waste_ceiling_error"
    if "\<not> numeric_gt w 1000"
  proof
    assume "validate_input n e g t w p k f = Inl waste_ceiling_error"
    from validate_input_error_mem [OF this] that show False
      unfolding validation_checks_def
      by (auto simp: waste_ceiling_check_def error_defs dest!: check_errors)
  qed
  have c1: "numeric_gt e 10000 \<longrightarrow> isl (validate_input n e g t w p k f)"
    unfolding validate_input_checks first_error_isl_iff validation_checks_def
    by (simp add: electricity_ceiling_check_def)
  have c2: "validate_input n (PyFloat (Finite 10000)) g t w p k f
      \<noteq> Inl electricity_ceiling_error"
    by (rule no_elec) (simp add: numeric_gt_def)
  have c3: "numeric_le e 10000 \<longrightarrow>
      validate_input n e g t w p k f \<noteq> Inl electricity_ceiling_error"
    using no_elec le_gt by blast
  have c4: "validate_input n e g t w p k f = Inr () \<longrightarrow>
      validate_input n (PyFloat (Finite 10000)) g t w p k f = Inr ()"
    unfolding validate_input_checks first_error_Inr_iff validation_checks_def
    by (simp add: number_check_def positive_check_def electricity_ceiling_check_def
        non_numeric_def numeric_le_def numeric_gt_def)
  have c5: "numeric_gt w 1000 \<longrightarrow> isl (validate_input n e g t w p k f)"
    unfolding validate_input_checks first_error_isl_iff validation_checks_def
    by (simp add: waste_ceiling_check_def)
  have c6: "numeric_le w 1000 \<longrightarrow>
      validate_input n e g t w p k f \<noteq> Inl waste_ceiling_error"
    using no_waste le_gt by blast
  from c1 c2 c3 c4 c5 c6 show ?thesis by blast
qed

theorem validate_input_ceilings_witness:
  "numeric_gt (PyFloat (Finite 10001)) 10000
   \<and> isl (validate_input ''Acme'' (PyFloat (Finite 10001)) (PyFloat (Finite 80))
        (PyFloat (Finite 30)) (PyFloat (Finite 40)) (PyFloat (Finite 50))
        (PyFloat (Finite 5000)) (PyFloat (Finite 7)))
   \<and> validate_input ''Acme'' (PyFloat (Finite 120)) (PyFloat (Finite 80))
        (PyFloat (Finite 30)) (PyFloat (Finite 40)) (PyFloat (Finite 50))
        (PyFloat (Finite 5000)) (PyFloat (Finite 7)) = Inr ()
   \<and> validate_input ''Acme'' (PyFloat (Finite 10000)) (PyFloat (Finite 80))
        (PyFloat (Finite 30)) (PyFloat (Finite 40)) (PyFloat (Finite 50))
        (PyFloat (Finite 5000)) (PyFloat (Finite 7)) = Inr ()
   \<and> numeric_le (PyFloat (Finite 10000)) 10000
   \<and> validate_input ''Acme'' (PyFloat (Finite 10000)) (PyFloat (Finite 80))
        (PyFloat (Finite 30)) (PyFloat (Finite 40)) (PyFloat (Finite 50))
        (PyFloat (Finite 5000)) (PyFloat (Finite 7)) \<noteq> Inl electricity_ceiling_error
   \<and> numeric_gt (PyFloat (Finite 1001)) 1000
   \<and> isl (validate_input ''Acme'' (PyFloat (Finite 120)) (PyFloat (Finite 80))
        (PyFloat (Finite 30)) (PyFloat (Finite 1001)) (PyFloat (Finite 50))
        (PyFloat (Finite 5000)) (PyFloat (Finite 7)))
   \<and> numeric_le (PyFloat (Finite 40)) 1000
   \<and> validate_input ''Acme'' (PyFloat (Finite 120)) (PyFloat (Finite 80))
        (PyFloat (Finite 30)) (PyFloat (Finite 40)) (PyFloat (Finite 50))
        (PyFloat (Finite 5000)) (PyFloat (Finite 7)) \<noteq> Inl waste_ceiling_error"
proof -
  note args = validate_input_ceilings [where n = "''Acme''" and g = "PyFloat (Finite 80)"
      and t = "PyFloat (Finite 30)" and p = "PyFloat (Finite 50)"
      and k = "PyFloat (Finite 5000)" and f = "PyFloat (Finite 7)"]
  have h1: "numeric_gt (PyFloat (Finite 10001)) 10000"
    by (simp add: numeric_gt_def)
  have h2: "validate_input ''Acme'' (PyFloat (Finite 120)) (PyFloat (Finite 80))
        (PyFloat (Finite 30)) (PyFloat (Finite 40)) (PyFloat (Finite 50))
        (PyFloat (Finite 5000)) (PyFloat (Finite 7)) = Inr ()"
    by (simp add: validate_input_def non_zero_fields_def isspace_def is_whitespace_def)
  have h5: "numeric_le (PyFloat (Finite 10000)) 10000"
    by (simp add: numeric_le_def)
  have r5: "validate_input ''Acme'' (PyFloat (Finite 10000)) (PyFloat (Finite 80))
        (PyFloat (Finite 30)) (PyFloat (Finite 40)) (PyFloat (Finite 50))
        (PyFloat (Finite 5000)) (PyFloat (Finite 7)) \<noteq> Inl electricity_ceiling_error"
    using validate_input_ceilings [where n = "''Acme''" and g = "PyFloat (Finite 80)"
      and t = "PyFloat (Finite 30)" and p = "PyFloat (Finite 50)"
      and k = "PyFloat (Finite 5000)" and f = "PyFloat (Finite 7)"
      and e = "PyFloat (Finite 10000)" and w = "PyFloat (Finite 40)"] h5
    by (elim conjE) simp
  have h3: "numeric_gt (PyFloat (Finite 1001)) 1000"
    by (simp add: numeric_gt_def)
  have h4: "numeric_le (PyFloat (Finite 40)) 1000"
    by (simp add: numeric_le_def)
  have r1: "isl (validate_input ''Acme'' (PyFloat (Finite 10001)) (PyFloat (Finite 80))
        (PyFloat (Finite 30)) (PyFloat (Finite 40)) (PyFloat (Finite 50))
        (PyFloat (Finite 5000)) (PyFloat (Finite 7)))"
    using args [of "PyFloat (Finite 10001)" "PyFloat (Finite 40)"] h1 by (elim conjE) simp
  have r2: "validate_input ''Acme'' (PyFloat (Finite 10000)) (PyFloat (Finite 80))
        (PyFloat (Finite 30)) (PyFloat (Finite 40)) (PyFloat (Finite 50))
        (PyFloat (Finite 5000)) (PyFloat (Finite 7)) = Inr ()"
    using args [of "PyFloat (Finite 120)" "PyFloat (Finite 40)"] h2 by (elim conjE) simp
  have r3: "isl (validate_input ''Acme'' (PyFloat (Finite 120)) (PyFloat (Finite 80))
        (PyFloat (Finite 30)) (PyFloat (Finite 1001)) (PyFloat (Finite 50))
        (PyFloat (Finite 5000)) (PyFloat (Finite 7)))"
    using args [of "PyFloat (Finite 120)" "PyFloat (Finite 1001)"] h3 by (elim conjE) simp
  have r4: "validate_input ''Acme'' (PyFloat (Finite 120)) (PyFloat (Finite 80))
        (PyFloat (Finite 30)) (PyFloat (Finite 40)) (PyFloat (Finite 50))
        (PyFloat (Finite 5000)) (PyFloat (Finite 7)) \<noteq> Inl waste_ceiling_error"
    using args [of "PyFloat (Finite 120)" "PyFloat (Finite 40)"] h4 by (elim conjE) simp
  from h1 r1 h2 r2 h5 r5 h3 r3 h4 r4 show ?thesis
    by (intro conjI)
qed

text \<open>
  C8: \<open>validate_input\<close> makes its checks in a fixed order and raises the error of the
  first that fails: the two company name checks, then the six positive fields in the
  order electricity bill, gas bill, transport cost, monthly waste, annual travel kms,
  fuel efficiency (for each the number check, the positivity check and, for the
  electricity bill and the monthly waste, the ceiling check right after it), then the
  recycled percentage. So a submission with an empty company name and a negative gas
  bill raises the company name error.
\<close>

theorem validate_input_check_order:
  "validate_input n e g t w p k f =
     first_error
       [name_blank_check n, name_length_check n,
        number_check ''Electricity Bill'' e, positive_check ''Electricity Bill'' e,
        electricity_ceiling_check e,
        number_check ''Gas Bill'' g, positive_check ''Gas Bill'' g,
        number_check ''Transport Cost'' t, positive_check ''Transport Cost'' t,
        number_check ''Monthly Waste'' w, positive_check ''Monthly Waste'' w,
        waste_ceiling_check w,
        number_check ''Annual Travel Distance'' k,
        positive_check ''Annual Travel Distance'' k,
        number_check ''Fuel Efficiency'' f, positive_check ''Fuel Efficiency'' f,
        number_check ''Recycled waste percentage'' p, percent_range_check p]
   \<and> validate_input [] e (PyFloat (Finite (- 1))) t w p k f =
       Inl (GrError ''Company name cannot be empty or just whitespace!'')"
proof
  show "validate_input n e g t w p k f =
     first_error
       [name_blank_check n, name_length_check n,
        number_check ''Electricity Bill'' e, positive_check ''Electricity Bill'' e,
        electricity_ceiling_check e,
        number_check ''Gas Bill'' g, positive_check ''Gas Bill'' g,
        number_check ''Transport Cost'' t, positive_check ''Transport Cost'' t,
        number_check ''Monthly Waste'' w, positive_check ''Monthly Waste'' w,
        waste_ceiling_check w,
        number_check ''Annual Travel Distance'' k,
        positive_check ''Annual Travel Distance'' k,
        number_check ''Fuel Efficiency'' f, positive_check ''Fuel Efficiency'' f,
        number_check ''Recycled waste percentage'' p, percent_range_check p]"
    using validate_input_checks [of n e g t w p k f]
    unfolding validation_checks_def .
  show "validate_input [] e (PyFloat (Finite (- 1))) t w p k f =
       Inl (GrError ''Company name cannot be empty or just whitespace!'')"
    by (simp add: validate_input_def)
qed

theorem validate_input_check_order_witness:
  "validate_input [] (PyFloat (Finite 120)) (PyFloat (Finite (- 1)))
       (PyFloat (Finite 30)) (PyFloat (Finite 40)) (PyFloat (Finite 50))
       (PyFloat (Finite 5000)) (PyFloat (Finite 7)) =
     Inl (GrError ''Company name cannot be empty or just whitespace!'')"
  using validate_input_check_order [of "[]" "PyFloat (Finite 120)" "PyFloat (Finite (- 1))"
      "PyFloat (Finite 30)" "PyFloat (Finite 40)" "PyFloat (Finite 50)"
      "PyFloat (Finite 5000)" "PyFloat (Finite 7)"]
  by (elim conjE)

text \<open>
  C9: \<open>validate_input\<close> puts no upper ceiling on the gas bill, the transport cost, the
  annual travel kms and the fuel efficiency. Whatever positive numeric values these four
  fields hold, however large (infinity included), the outcome of the validation is the
  same, so no error is raised on their account; in particular none of the errors that
  name one of the four fields is raised.
\<close>

theorem validate_input_no_ceiling:
  "list_all (\<lambda>v. numeric_gt v 0) [g, t, k, f] \<and> list_all (\<lambda>v. numeric_gt v 0) [g', t', k', f']
   \<longrightarrow> validate_input n e g t w p k f = validate_input n e g' t' w p k' f'
     \<and> list_all (\<lambda>err. validate_input n e g t w p k f \<noteq> Inl err)
         (concat (map field_errors
            [''Gas Bill'', ''Transport Cost'', ''Annual Travel Distance'',
             ''Fuel Efficiency'']))"
proof (intro impI conjI)
  assume pos: "list_all (\<lambda>v. numeric_gt v 0) [g, t, k, f]
      \<and> list_all (\<lambda>v. numeric_gt v 0) [g', t', k', f']"
  have none: "number_check name v = None \<and> positive_check name v = None"
    if "v \<in> set [g, t, k, f, g', t', k', f']" for name v
    using that pos positive_checks_None [of v name] by auto
  show "validate_input n e g t w p k f = validate_input n e g' t' w p k' f'"
    unfolding validate_input_checks validation_checks_def by (simp add: none)
  have "err \<notin> set (concat (map field_errors
            [''Gas Bill'', ''Transport Cost'', ''Annual Travel Distance'',
             ''Fuel Efficiency'']))"
    if "validate_input n e g t w p k f = Inl err" for err
    using validate_input_error_mem [OF that]
    unfolding validation_checks_def
    by (auto simp: none field_errors_def error_defs dest!: check_errors)
  then show "list_all (\<lambda>err. validate_input n e g t w p k f \<noteq> Inl err)
         (concat (map field_errors
            [''Gas Bill'', ''Transport Cost'', ''Annual Travel Distance'',
             ''Fuel Efficiency'']))"
    unfolding list_all_iff by blast
qed

theorem validate_input_no_ceiling_witness:
  "list_all (\<lambda>v. numeric_gt v 0)
     [PyFloat PosInf, PyFloat (Finite (2 ^ 1000)), PyFloat (Finite 5000), PyFloat PosInf]
   \<and> list_all (\<lambda>v. numeric_gt v 0)
     [PyFloat (Finite 80), PyFloat (Finite 30), PyFloat (Finite 5000), PyFloat (Finite 7)]
   \<and> validate_input ''Acme'' (PyFloat (Finite 120)) (PyFloat PosInf)
        (PyFloat (Finite (2 ^ 1000))) (PyFloat (Finite 40)) (PyFloat (Finite 50))
        (PyFloat (Finite 5000)) (PyFloat PosInf) = Inr ()"
proof -
  have h1: "list_all (\<lambda>v. numeric_gt v 0)
     [PyFloat PosInf, PyFloat (Finite (2 ^ 1000)), PyFloat (Finite 5000), PyFloat PosInf]"
    by (simp add: numeric_gt_def)
  have h2: "list_all (\<lambda>v. numeric_gt v 0)
     [PyFloat (Finite 80), PyFloat (Finite 30), PyFloat (Finite 5000), PyFloat (Finite 7)]"
    by (simp add: numeric_gt_def)
  have ok: "validate_input ''Acme'' (PyFloat (Finite 120)) (PyFloat (Finite 80))
        (PyFloat (Finite 30)) (PyFloat (Finite 40)) (PyFloat (Finite 50))
        (PyFloat (Finite 5000)) (PyFloat (Finite 7)) = Inr ()"
    by (simp add: validate_input_def non_zero_fields_def isspace_def is_whitespace_def)
  have "validate_input ''Acme'' (PyFloat (Finite 120)) (PyFloat PosInf)
        (PyFloat (Finite (2 ^ 1000))) (PyFloat (Finite 40)) (PyFloat (Finite 50))
        (PyFloat (Finite 5000)) (PyFloat PosInf) = Inr ()"
    using validate_input_no_ceiling [of "PyFloat PosInf" "PyFloat (Finite (2 ^ 1000))"
        "PyFloat (Finite 5000)" "PyFloat PosInf" "PyFloat (Finite 80)" "PyFloat (Finite 30)"
        "PyFloat (Finite 5000)" "PyFloat (Finite 7)" "''Acme''" "PyFloat (Finite 120)"
        "PyFloat (Finite 40)" "PyFloat (Finite 50)"] h1 h2 ok
    by simp
  with h1 h2 show ?thesis by (intro conjI)
qed

section \<open>Properties of compute\<close>



text \<open>
  C7: for every submission that fails validation, \<open>compute\<close> raises the validation error
  and nothing else happens: the world is the one it started in, with no call made to the
  dataframe, figure or image functions, no summary built and no report file written.
\<close>

theorem compute_validation_failure:
  "validate_input n e g t w p k f = Inl exc \<Longrightarrow> compute E n e g t w p k f s = (Inl exc, s)"
  by (simp add: compute_def)

theorem compute_validation_failure_witness:
  "validate_input [] (PyFloat (Finite 1)) (PyFloat (Finite (- 1))) (PyFloat (Finite 1))
       (PyFloat (Finite 1)) (PyFloat (Finite 1)) (PyFloat (Finite 1)) (PyFloat (Finite 1)) =
     Inl (GrError ''Company name cannot be empty or just whitespace!'')
   \<and> compute example_environment [] (PyFloat (Finite 1)) (PyFloat (Finite (- 1)))
       (PyFloat (Finite 1)) (PyFloat (Finite 1)) (PyFloat (Finite 1)) (PyFloat (Finite 1))
       (PyFloat (Finite 1)) empty_world =
     (Inl (GrError ''Company name cannot be empty or just whitespace!''), empty_world)"
proof -
  have invalid: "validate_input [] (PyFloat (Finite 1)) (PyFloat (Finite (- 1)))
       (PyFloat (Finite 1)) (PyFloat (Finite 1)) (PyFloat (Finite 1)) (PyFloat (Finite 1))
       (PyFloat (Finite 1)) =
     Inl (GrError ''Company name cannot be empty or just whitespace!'')"
    by (simp add: validate_input_def)
  from invalid compute_validation_failure [OF invalid, of example_environment empty_world]
  show ?thesis by (intro conjI)
qed

text \<open>
  C6, as the specification words it, fails: the file name is not made of the lowercased
  company name with its spaces stripped out. For the company name \<^verbatim>\<open>Acme Corp\<close> the report
  is written to \<^verbatim>\<open>./reports/acme_corp_report.pdf\<close>, and nothing is written to
  \<^verbatim>\<open>./reports/acmecorp_report.pdf\<close>.
\<close>

theorem compute_space_stripped_path_counterexample:
  "validate_input ''Acme Corp'' (PyFloat (Finite 1)) (PyFloat (Finite 1))
       (PyFloat (Finite 1)) (PyFloat (Finite 1)) (PyFloat (Finite 1)) (PyFloat (Finite 1))
       (PyFloat (Finite 1)) = Inr ()
   \<and> space_stripped_file_path ''Acme Corp'' = ''./reports/acmecorp_report.pdf''
   \<and> dom (files (snd (compute example_environment ''Acme Corp'' (PyFloat (Finite 1))
         (PyFloat (Finite 1)) (PyFloat (Finite 1)) (PyFloat (Finite 1))
         (PyFloat (Finite 1)) (PyFloat (Finite 1)) (PyFloat (Finite 1)) empty_world))) =
       {''./reports/acme_corp_report.pdf''}
   \<and> space_stripped_file_path ''Acme Corp''
       \<notin> dom (files (snd (compute example_environment ''Acme Corp'' (PyFloat (Finite 1))
         (PyFloat (Finite 1)) (PyFloat (Finite 1)) (PyFloat (Finite 1))
         (PyFloat (Finite 1)) (PyFloat (Finite 1)) (PyFloat (Finite 1)) empty_world)))"
proof -
  have valid: "validate_input ''Acme Corp'' (PyFloat (Finite 1)) (PyFloat (Finite 1))
       (PyFloat (Finite 1)) (PyFloat (Finite 1)) (PyFloat (Finite 1)) (PyFloat (Finite 1))
       (PyFloat (Finite 1)) = Inr ()"
    by (rule example_valid) (simp_all add: example_names)
  obtain summary where
    run: "\<And>s. compute example_environment ''Acme Corp'' (PyFloat (Finite 1))
         (PyFloat (Finite 1)) (PyFloat (Finite 1)) (PyFloat (Finite 1))
         (PyFloat (Finite 1)) (PyFloat (Finite 1)) (PyFloat (Finite 1)) s =
             (Inr (summary,
                   \<lparr>btn_label = ''Download Report'', btn_variant = ''secondary'',
                    btn_visible = True, btn_value = file_path ''Acme Corp''\<rparr>),
              s\<lparr>files := (files s)(file_path ''Acme Corp'' \<mapsto>
                    write_image example_environment
                      (report_plot example_environment ''Acme Corp'' (PyFloat (Finite 1))
                         (PyFloat (Finite 1)) (PyFloat (Finite 1)) (PyFloat (Finite 1))
                         (PyFloat (Finite 1)) (PyFloat (Finite 1)) (PyFloat (Finite 1)))
                      (file_path ''Acme Corp'') 1400 800),
                calls := calls s @ [MakeDataframe, DrawReportFigure, ToImage,
                                    WriteImage (file_path ''Acme Corp'')]\<rparr>)"
    using compute_valid [OF valid, of example_environment] by blast
  have written: "dom (files (snd (compute example_environment ''Acme Corp''
         (PyFloat (Finite 1)) (PyFloat (Finite 1)) (PyFloat (Finite 1)) (PyFloat (Finite 1))
         (PyFloat (Finite 1)) (PyFloat (Finite 1)) (PyFloat (Finite 1)) empty_world))) =
       {''./reports/acme_corp_report.pdf''}"
    unfolding run by (simp add: empty_world_def example_paths)
  show ?thesis
    unfolding written using valid by (simp add: example_paths)
qed

text \<open>
  C6, amended: for every valid submission, the report file path \<open>compute\<close> writes to, which
  is also the value of the download button, is \<^verbatim>\<open>./reports/\<close> followed by the first 10
  characters of the company name lowercased with each space replaced by an underscore,
  followed by \<^verbatim>\<open>_report.pdf\<close>. That one file is the only one written, the truncated
  name has the length of the name when this is below 10, and it contains no space.
\<close>

theorem compute_report_file_path:
  assumes "validate_input n e g t w p k f = Inr ()"
  shows "\<exists>summary button s'.
           compute E n e g t w p k f s = (Inr (summary, button), s')
           \<and> btn_value button =
               ''./reports/'' @ take 10 (str_replace CHR '' '' CHR ''_'' (str_lower n))
                 @ ''_report.pdf''
           \<and> files s' =
               (files s)(btn_value button \<mapsto>
                  write_image E (report_plot E n e g t w p k f) (btn_value button) 1400 800)
           \<and> calls s' = calls s @ [MakeDataframe, DrawReportFigure, ToImage,
                                    WriteImage (btn_value button)]
           \<and> length (take 10 (str_replace CHR '' '' CHR ''_'' (str_lower n))) =
               min (length n) 10
           \<and> CHR '' '' \<notin> set (take 10 (str_replace CHR '' '' CHR ''_'' (str_lower n)))"
proof -
  obtain summary where
    run: "\<And>s. compute E n e g t w p k f s =
             (Inr (summary,
                   \<lparr>btn_label = ''Download Report'', btn_variant = ''secondary'',
                    btn_visible = True, btn_value = file_path n\<rparr>),
              s\<lparr>files := (files s)(file_path n \<mapsto>
                    write_image E (report_plot E n e g t w p k f) (file_path n) 1400 800),
                calls := calls s @ [MakeDataframe, DrawReportFigure, ToImage,
                                    WriteImage (file_path n)]\<rparr>)"
    using compute_valid [OF assms, of E] by blast
  have len: "length (take 10 (str_replace CHR '' '' CHR ''_'' (str_lower n))) =
      min (length n) 10"
    by (simp add: str_replace_def str_lower_def)
  have nospace: "CHR '' '' \<notin> set (take 10 (str_replace CHR '' '' CHR ''_'' (str_lower n)))"
    by (rule str_replace_removes) simp
  let ?button = "\<lparr>btn_label = ''Download Report'', btn_variant = ''secondary'',
      btn_visible = True, btn_value = file_path n\<rparr>"
  let ?s' = "s\<lparr>files := (files s)(file_path n \<mapsto>
        write_image E (report_plot E n e g t w p k f) (file_path n) 1400 800),
      calls := calls s @ [MakeDataframe, DrawReportFigure, ToImage,
                          WriteImage (file_path n)]\<rparr>"
  have "compute E n e g t w p k f s = (Inr (summary, ?button), ?s')
           \<and> btn_value ?button =
               ''./reports/'' @ take 10 (str_replace CHR '' '' CHR ''_'' (str_lower n))
                 @ ''_report.pdf''
           \<and> files ?s' =
               (files s)(btn_value ?button \<mapsto>
                  write_image E (report_plot E n e g t w p k f) (btn_value ?button) 1400 800)
           \<and> calls ?s' = calls s @ [MakeDataframe, DrawReportFigure, ToImage,
                                    WriteImage (btn_value ?button)]
           \<and> length (take 10 (str_replace CHR '' '' CHR ''_'' (str_lower n))) =
               min (length n) 10
           \<and> CHR '' '' \<notin> set (take 10 (str_replace CHR '' '' CHR ''_'' (str_lower n)))"
    using run [of s] len nospace by (simp add: file_path_def)
  then show ?thesis by blast
qed

theorem compute_report_file_path_witness:
  "validate_input ''Acme Corp'' (PyFloat (Finite 1)) (PyFloat (Finite 1))
       (PyFloat (Finite 1)) (PyFloat (Finite 1)) (PyFloat (Finite 1)) (PyFloat (Finite 1))
       (PyFloat (Finite 1)) = Inr ()
   \<and> (\<exists>summary button s'.
         compute example_environment ''Acme Corp'' (PyFloat (Finite 1)) (PyFloat (Finite 1))
           (PyFloat (Finite 1)) (PyFloat (Finite 1)) (PyFloat (Finite 1))
           (PyFloat (Finite 1)) (PyFloat (Finite 1)) empty_world =
           (Inr (summary, button), s')
         \<and> btn_value button = ''./reports/acme_corp_report.pdf'')"
proof -
  have valid: "validate_input ''Acme Corp'' (PyFloat (Finite 1)) (PyFloat (Finite 1))
       (PyFloat (Finite 1)) (PyFloat (Finite 1)) (PyFloat (Finite 1)) (PyFloat (Finite 1))
       (PyFloat (Finite 1)) = Inr ()"
    by (rule example_valid) (simp_all add: example_names)
  have path: "''./reports/'' @ take 10 (str_replace CHR '' '' CHR ''_'' (str_lower ''Acme Corp''))
      @ ''_report.pdf'' = ''./reports/acme_corp_report.pdf''"
    using example_paths(1) by (simp only: file_path_def)
  from compute_report_file_path [OF valid, of example_environment empty_world]
  have "\<exists>summary button s'.
         compute example_environment ''Acme Corp'' (PyFloat (Finite 1)) (PyFloat (Finite 1))
           (PyFloat (Finite 1)) (PyFloat (Finite 1)) (PyFloat (Finite 1))
           (PyFloat (Finite 1)) (PyFloat (Finite 1)) empty_world =
           (Inr (summary, button), s')
         \<and> btn_value button = ''./reports/acme_corp_report.pdf''"
    unfolding path by blast
  with valid show ?thesis by (intro conjI)
qed

text \<open>
  C10: the report file name is not injective in the company name. The two distinct
  valid company names \<^verbatim>\<open>Acme Corporation\<close> and \<^verbatim>\<open>acme_corporate\<close> have the same report
  path, as any two names have that agree on their first 10 characters after lowercasing
  and replacing spaces by underscores; and when \<open>compute\<close> runs on two valid submissions
  with the same report path, the second run writes its report over the one the first
  run wrote, and no other file appears.
\<close>

theorem report_file_path_collision:
  "''Acme Corporation'' \<noteq> ''acme_corporate''
   \<and> file_path ''Acme Corporation'' = file_path ''acme_corporate''
   \<and> validate_input ''Acme Corporation'' (PyFloat (Finite 1)) (PyFloat (Finite 1))
       (PyFloat (Finite 1)) (PyFloat (Finite 1)) (PyFloat (Finite 1)) (PyFloat (Finite 1))
       (PyFloat (Finite 1)) = Inr ()
   \<and> validate_input ''acme_corporate'' (PyFloat (Finite 1)) (PyFloat (Finite 1))
       (PyFloat (Finite 1)) (PyFloat (Finite 1)) (PyFloat (Finite 1)) (PyFloat (Finite 1))
       (PyFloat (Finite 1)) = Inr ()
   \<and> (take 10 (str_replace CHR '' '' CHR ''_'' (str_lower n1)) =
        take 10 (str_replace CHR '' '' CHR ''_'' (str_lower n2))
      \<longrightarrow> file_path n1 = file_path n2)
   \<and> (file_path n1 = file_path n2
        \<and> validate_input n1 e1 g1 t1 w1 p1 k1 f1 = Inr ()
        \<and> validate_input n2 e2 g2 t2 w2 p2 k2 f2 = Inr ()
      \<longrightarrow> (\<exists>summary1 button1 s1 summary2 button2 s2.
             compute E n1 e1 g1 t1 w1 p1 k1 f1 s = (Inr (summary1, button1), s1)
             \<and> compute E n2 e2 g2 t2 w2 p2 k2 f2 s1 = (Inr (summary2, button2), s2)
             \<and> btn_value button1 = btn_value button2
             \<and> files s1 (btn_value button1) =
                 Some (write_image E (report_plot E n1 e1 g1 t1 w1 p1 k1 f1)
                         (btn_value button1) 1400 800)
             \<and> files s2 (btn_value button1) =
                 Some (write_image E (report_plot E n2 e2 g2 t2 w2 p2 k2 f2)
                         (btn_value button1) 1400 800)
             \<and> dom (files s2) = dom (files s1)))"
proof (intro conjI impI)
  show "''Acme Corporation'' \<noteq> ''acme_corporate''"
    by simp
  show "file_path ''Acme Corporation'' = file_path ''acme_corporate''"
    by (simp only: example_paths)
  show "validate_input ''Acme Corporation'' (PyFloat (Finite 1)) (PyFloat (Finite 1))
       (PyFloat (Finite 1)) (PyFloat (Finite 1)) (PyFloat (Finite 1)) (PyFloat (Finite 1))
       (PyFloat (Finite 1)) = Inr ()"
    by (rule example_valid) (simp_all add: example_names)
  show "validate_input ''acme_corporate'' (PyFloat (Finite 1)) (PyFloat (Finite 1))
       (PyFloat (Finite 1)) (PyFloat (Finite 1)) (PyFloat (Finite 1)) (PyFloat (Finite 1))
       (PyFloat (Finite 1)) = Inr ()"
    by (rule example_valid) (simp_all add: example_names)
next
  assume "take 10 (str_replace CHR '' '' CHR ''_'' (str_lower n1)) =
        take 10 (str_replace CHR '' '' CHR ''_'' (str_lower n2))"
  then show "file_path n1 = file_path n2"
    by (simp add: file_path_def)
next
  assume a: "file_path n1 = file_path n2
        \<and> validate_input n1 e1 g1 t1 w1 p1 k1 f1 = Inr ()
        \<and> validate_input n2 e2 g2 t2 w2 p2 k2 f2 = Inr ()"
  obtain summary1 where
    run1: "\<And>s. compute E n1 e1 g1 t1 w1 p1 k1 f1 s =
             (Inr (summary1,
                   \<lparr>btn_label = ''Download Report'', btn_variant = ''secondary'',
                    btn_visible = True, btn_value = file_path n1\<rparr>),
              s\<lparr>files := (files s)(file_path n1 \<mapsto>
                    write_image E (report_plot E n1 e1 g1 t1 w1 p1 k1 f1) (file_path n1)
                      1400 800),
                calls := calls s @ [MakeDataframe, DrawReportFigure, ToImage,
                                    WriteImage (file_path n1)]\<rparr>)"
    using compute_valid [of n1 e1 g1 t1 w1 p1 k1 f1 E] a by blast
  obtain summary2 where
    run2: "\<And>s. compute E n2 e2 g2 t2 w2 p2 k2 f2 s =
             (Inr (summary2,
                   \<lparr>btn_label = ''Download Report'', btn_variant = ''secondary'',
                    btn_visible = True, btn_value = file_path n2\<rparr>),
              s\<lparr>files := (files s)(file_path n2 \<mapsto>
                    write_image E (report_plot E n2 e2 g2 t2 w2 p2 k2 f2) (file_path n2)
                      1400 800),
                calls := calls s @ [MakeDataframe, DrawReportFigure, ToImage,
                                    WriteImage (file_path n2)]\<rparr>)"
    using compute_valid [of n2 e2 g2 t2 w2 p2 k2 f2 E] a by blast
  let ?button1 = "\<lparr>btn_label = ''Download Report'', btn_variant = ''secondary'',
      btn_visible = True, btn_value = file_path n1\<rparr>"
  let ?button2 = "\<lparr>btn_label = ''Download Report'', btn_variant = ''secondary'',
      btn_visible = True, btn_value = file_path n2\<rparr>"
  let ?s1 = "s\<lparr>files := (files s)(file_path n1 \<mapsto>
        write_image E (report_plot E n1 e1 g1 t1 w1 p1 k1 f1) (file_path n1) 1400 800),
      calls := calls s @ [MakeDataframe, DrawReportFigure, ToImage,
                          WriteImage (file_path n1)]\<rparr>"
  let ?s2 = "?s1\<lparr>files := (files ?s1)(file_path n2 \<mapsto>
        write_image E (report_plot E n2 e2 g2 t2 w2 p2 k2 f2) (file_path n2) 1400 800),
      calls := calls ?s1 @ [MakeDataframe, DrawReportFigure, ToImage,
                            WriteImage (file_path n2)]\<rparr>"
  have "compute E n1 e1 g1 t1 w1 p1 k1 f1 s = (Inr (summary1, ?button1), ?s1)
      \<and> compute E n2 e2 g2 t2 w2 p2 k2 f2 ?s1 = (Inr (summary2, ?button2), ?s2)
      \<and> btn_value ?button1 = btn_value ?button2
      \<and> files ?s1 (btn_value ?button1) =
          Some (write_image E (report_plot E n1 e1 g1 t1 w1 p1 k1 f1)
                  (btn_value ?button1) 1400 800)
      \<and> files ?s2 (btn_value ?button1) =
          Some (write_image E (report_plot E n2 e2 g2 t2 w2 p2 k2 f2)
                  (btn_value ?button1) 1400 800)
      \<and> dom (files ?s2) = dom (files ?s1)"
    using a by (simp add: run1 run2)
  then show "\<exists>summary1 button1 s1 summary2 button2 s2.
             compute E n1 e1 g1 t1 w1 p1 k1 f1 s = (Inr (summary1, button1), s1)
             \<and> compute E n2 e2 g2 t2 w2 p2 k2 f2 s1 = (Inr (summary2, button2), s2)
             \<and> btn_value button1 = btn_value button2
             \<and> files s1 (btn_value button1) =
                 Some (write_image E (report_plot E n1 e1 g1 t1 w1 p1 k1 f1)
                         (btn_value button1) 1400 800)
             \<and> files s2 (btn_value button1) =
                 Some (write_image E (report_plot E n2 e2 g2 t2 w2 p2 k2 f2)
                         (btn_value button1) 1400 800)
             \<and> dom (files s2) = dom (files s1)"
    by blast
qed

theorem report_file_path_collision_witness:
  "take 10 (str_replace CHR '' '' CHR ''_'' (str_lower ''Acme Corporation'')) =
     take 10 (str_replace CHR '' '' CHR ''_'' (str_lower ''acme_corporate''))
   \<and> file_path ''Acme Corporation'' = file_path ''acme_corporate''
   \<and> validate_input ''Acme Corporation'' (PyFloat (Finite 1)) (PyFloat (Finite 1))
       (PyFloat (Finite 1)) (PyFloat (Finite 1)) (PyFloat (Finite 1)) (PyFloat (Finite 1))
       (PyFloat (Finite 1)) = Inr ()
   \<and> validate_input ''acme_corporate'' (PyFloat (Finite 1)) (PyFloat (Finite 1))
       (PyFloat (Finite 1)) (PyFloat (Finite 1)) (PyFloat (Finite 1)) (PyFloat (Finite 1))
       (PyFloat (Finite 1)) = Inr ()
   \<and> (\<exists>summary1 button1 s1 summary2 button2 s2.
         compute example_environment ''Acme Corporation'' (PyFloat (Finite 1))
           (PyFloat (Finite 1)) (PyFloat (Finite 1)) (PyFloat (Finite 1))
           (PyFloat (Finite 1)) (PyFloat (Finite 1)) (PyFloat (Finite 1)) empty_world =
           (Inr (summary1, button1), s1)
         \<and> compute example_environment ''acme_corporate'' (PyFloat (Finite 1))
           (PyFloat (Finite 1)) (PyFloat (Finite 1)) (PyFloat (Finite 1))
           (PyFloat (Finite 1)) (PyFloat (Finite 1)) (PyFloat (Finite 1)) s1 =
           (Inr (summary2, button2), s2)
         \<and> btn_value button1 = btn_value button2
         \<and> dom (files s2) = dom (files s1))"
proof -
  note collision = report_file_path_collision [of "''Acme Corporation''" "''acme_corporate''"
      "PyFloat (Finite 1)" "PyFloat (Finite 1)" "PyFloat (Finite 1)" "PyFloat (Finite 1)"
      "PyFloat (Finite 1)" "PyFloat (Finite 1)" "PyFloat (Finite 1)"
      "PyFloat (Finite 1)" "PyFloat (Finite 1)" "PyFloat (Finite 1)" "PyFloat (Finite 1)"
      "PyFloat (Finite 1)" "PyFloat (Finite 1)" "PyFloat (Finite 1)"
      example_environment empty_world]
  have prefix: "take 10 (str_replace CHR '' '' CHR ''_'' (str_lower ''Acme Corporation'')) =
     take 10 (str_replace CHR '' '' CHR ''_'' (str_lower ''acme_corporate''))"
    by (simp add: str_lower_def str_replace_def lower_char_def char_of_def bit_Suc_0_iff)
  have same: "file_path ''Acme Corporation'' = file_path ''acme_corporate''"
    using collision prefix by (elim conjE) simp
  have valid1: "validate_input ''Acme Corporation'' (PyFloat (Finite 1)) (PyFloat (Finite 1))
       (PyFloat (Finite 1)) (PyFloat (Finite 1)) (PyFloat (Finite 1)) (PyFloat (Finite 1))
       (PyFloat (Finite 1)) = Inr ()"
    using collision by (elim conjE)
  have valid2: "validate_input ''acme_corporate'' (PyFloat (Finite 1)) (PyFloat (Finite 1))
       (PyFloat (Finite 1)) (PyFloat (Finite 1)) (PyFloat (Finite 1)) (PyFloat (Finite 1))
       (PyFloat (Finite 1)) = Inr ()"
    using collision by (elim conjE)
  have "\<exists>summary1 button1 s1 summary2 button2 s2.
         compute example_environment ''Acme Corporation'' (PyFloat (Finite 1))
           (PyFloat (Finite 1)) (PyFloat (Finite 1)) (PyFloat (Finite 1))
           (PyFloat (Finite 1)) (PyFloat (Finite 1)) (PyFloat (Finite 1)) empty_world =
           (Inr (summary1, button1), s1)
         \<and> compute example_environment ''acme_corporate'' (PyFloat (Finite 1))
           (PyFloat (Finite 1)) (PyFloat (Finite 1)) (PyFloat (Finite 1))
           (PyFloat (Finite 1)) (PyFloat (Finite 1)) (PyFloat (Finite 1)) s1 =
           (Inr (summary2, button2), s2)
         \<and> btn_value button1 = btn_value button2
         \<and> dom (files s2) = dom (files s1)"
    using collision same valid1 valid2 by blast
  with prefix same valid1 valid2 show ?thesis by (intro conjI)
qed

end
